theory Spec2Isabelle
  imports Complex_Main "HOL-Library.Char_ord" "HOL-Library.List_Lexorder"
begin

section \<open>The governance pipeline of \<^verbatim>\<open>governance.py\<close>\<close>

text \<open>
  The development embeds \<^verbatim>\<open>src/core/integrated_specs/governance.py\<close>: the enums, the
  two dataclasses, the class \<^verbatim>\<open>Triumvirate\<close> with its Four Laws check, its three council
  votes, \<^verbatim>\<open>evaluate_action\<close>, \<^verbatim>\<open>_log_decision\<close>, \<^verbatim>\<open>get_statistics\<close> and
  \<^verbatim>\<open>get_recent_decisions\<close>, and \<^verbatim>\<open>GovernanceContext.from_dict\<close>.

  Python does not enforce the annotations of a dataclass, and both the legacy mapping of
  \<^verbatim>\<open>evaluate_action\<close> and \<^verbatim>\<open>from_dict\<close> store the values of a \<^verbatim>\<open>dict[str, Any]\<close>
  in the fields unchanged. The fields of a context are therefore Python values, and a
  test reads the truth value of a field as \<^verbatim>\<open>if\<close>, \<^verbatim>\<open>and\<close> and \<^verbatim>\<open>not\<close> do.
  Calls to the standard \<^verbatim>\<open>logging\<close> module are output only and are left out.
\<close>

subsection \<open>Python values\<close>

text \<open>
  The scalar values a JSON-like mapping carries. A float stands for the exact rational
  value of a finite double; NaN and the infinities are outside the model.
\<close>

datatype pyval = PyNone | PyBool bool | PyInt int | PyFloat rat | PyStr string

datatype error = TypeError string

text \<open>Truth value testing: \<^verbatim>\<open>None\<close>, \<^verbatim>\<open>False\<close>, zero and the empty string are false.\<close>

fun truthy :: "pyval \<Rightarrow> bool" where
  "truthy PyNone = False"
| "truthy (PyBool b) = b"
| "truthy (PyInt i) = (i \<noteq> 0)"
| "truthy (PyFloat r) = (r \<noteq> 0)"
| "truthy (PyStr s) = (s \<noteq> [])"

text \<open>
  \<^verbatim>\<open>v < f\<close> for a float \<^verbatim>\<open>f\<close>: numbers (a bool is an int) compare by value,
  \<^verbatim>\<open>None\<close> and strings raise \<^verbatim>\<open>TypeError\<close>.
\<close>

fun py_lt_float :: "pyval \<Rightarrow> rat \<Rightarrow> error + bool" where
  "py_lt_float PyNone f =
     Inl (TypeError ''< not supported between instances of NoneType and float'')"
| "py_lt_float (PyBool b) f = Inr ((if b then 1 else 0) < f)"
| "py_lt_float (PyInt i) f = Inr (of_int i < f)"
| "py_lt_float (PyFloat r) f = Inr (r < f)"
| "py_lt_float (PyStr s) f =
     Inl (TypeError ''< not supported between instances of str and float'')"

text \<open>The doubles that the literals \<^verbatim>\<open>0.3\<close> and \<^verbatim>\<open>0.7\<close> denote.\<close>

definition float_0_3 :: rat where
  "float_0_3 = 5404319552844595 / 18014398509481984"

definition float_0_7 :: rat where
  "float_0_7 = 3152519739159347 / 4503599627370496"

text \<open>
  A \<^verbatim>\<open>dict\<close> with string keys, in insertion order. A Python dict has distinct keys;
  the functions below read an association list through \<open>map_of\<close> and \<open>map fst\<close> only.
\<close>

type_synonym pydict = "(string \<times> pyval) list"

definition dict_get :: "pydict \<Rightarrow> string \<Rightarrow> pyval \<Rightarrow> pyval" where
  "dict_get d k dflt = (case map_of d k of Some v \<Rightarrow> v | None \<Rightarrow> dflt)"

text \<open>\<^verbatim>\<open>sep.join(xs)\<close>\<close>

fun join :: "string \<Rightarrow> string list \<Rightarrow> string" where
  "join sep [] = []"
| "join sep [x] = x"
| "join sep (x # y # ys) = x @ sep @ join sep (y # ys)"

text \<open>
  \<^verbatim>\<open>max(iterable, key=...)\<close> on a non-empty iterable with first item \<open>m\<close>: the
  running maximum is replaced only by an item whose key is strictly greater.
\<close>

fun py_max_key :: "('a \<Rightarrow> 'k::linorder) \<Rightarrow> 'a \<Rightarrow> 'a list \<Rightarrow> 'a" where
  "py_max_key key m [] = m"
| "py_max_key key m (x # xs) = py_max_key key (if key m < key x then x else m) xs"

text \<open>
  \<^verbatim>\<open>xs[s:]\<close>: a negative start counts from the end, and the start is clamped to the
  list.
\<close>

definition py_slice_from :: "int \<Rightarrow> 'a list \<Rightarrow> 'a list" where
  "py_slice_from s xs =
     (let n = int (length xs);
          s' = (if s < 0 then max (s + n) 0 else min s n)
      in drop (nat s') xs)"

subsection \<open>Enums and dataclasses\<close>

datatype CouncilMember = GALAHAD | CERBERUS | CODEX_DEUS_MAXIMUS

fun member_value :: "CouncilMember \<Rightarrow> string" where
  "member_value GALAHAD = ''galahad''"
| "member_value CERBERUS = ''cerberus''"
| "member_value CODEX_DEUS_MAXIMUS = ''codex_deus_maximus''"

datatype GovernanceLevel = CRITICAL | HIGH | MEDIUM | LOW

text \<open>The \<^verbatim>\<open>.value\<close> of a level is its lower-case name.\<close>

fun level_value :: "GovernanceLevel \<Rightarrow> string" where
  "level_value CRITICAL = ''critical''"
| "level_value HIGH = ''high''"
| "level_value MEDIUM = ''medium''"
| "level_value LOW = ''low''"

record GovernanceDecision =
  allowed :: bool
  reason :: string
  overrides :: bool
  level :: GovernanceLevel
  council_member :: "CouncilMember option"

definition decision_to_dict :: "GovernanceDecision \<Rightarrow> pydict" where
  "decision_to_dict d =
     [(''allowed'', PyBool (allowed d)),
      (''reason'', PyStr (reason d)),
      (''overrides'', PyBool (overrides d)),
      (''level'', PyStr (level_value (level d))),
      (''council_member'',
         (case council_member d of Some m \<Rightarrow> PyStr (member_value m) | None \<Rightarrow> PyNone))]"

record GovernanceContext =
  action_type :: pyval
  description :: pyval
  is_abusive :: pyval
  high_risk :: pyval
  irreversible :: pyval
  sensitive_data :: pyval
  fully_clarified :: pyval
  proper_safeguards :: pyval
  user_consent :: pyval
  contradicts_prior_commitment :: pyval
  violates_user_preference :: pyval
  affects_identity :: pyval
  affects_memory :: pyval
  affects_relationships :: pyval
  user_id :: pyval
  relationship_health :: pyval

text \<open>\<^verbatim>\<open>GovernanceContext()\<close>: every field at its declared default.\<close>

definition default_context :: GovernanceContext where
  "default_context =
     \<lparr>action_type = PyStr ''general'',
      description = PyStr '''',
      is_abusive = PyBool False,
      high_risk = PyBool False,
      irreversible = PyBool False,
      sensitive_data = PyBool False,
      fully_clarified = PyBool True,
      proper_safeguards = PyBool True,
      user_consent = PyBool True,
      contradicts_prior_commitment = PyBool False,
      violates_user_preference = PyBool False,
      affects_identity = PyBool False,
      affects_memory = PyBool False,
      affects_relationships = PyBool False,
      user_id = PyNone,
      relationship_health = PyFloat float_0_7\<rparr>"

definition context_to_dict :: "GovernanceContext \<Rightarrow> pydict" where
  "context_to_dict c =
     [(''action_type'', action_type c),
      (''description'', description c),
      (''is_abusive'', is_abusive c),
      (''high_risk'', high_risk c),
      (''irreversible'', irreversible c),
      (''sensitive_data'', sensitive_data c),
      (''fully_clarified'', fully_clarified c),
      (''proper_safeguards'', proper_safeguards c),
      (''user_consent'', user_consent c),
      (''contradicts_prior_commitment'', contradicts_prior_commitment c),
      (''violates_user_preference'', violates_user_preference c),
      (''affects_identity'', affects_identity c),
      (''affects_memory'', affects_memory c),
      (''affects_relationships'', affects_relationships c),
      (''user_id'', user_id c),
      (''relationship_health'', relationship_health c)]"




subsection \<open>The class \<^verbatim>\<open>Triumvirate\<close>\<close>

text \<open>
  One entry of \<^verbatim>\<open>decision_log\<close>: the dict that \<^verbatim>\<open>_log_decision\<close> builds, a field
  \<open>entry_k\<close> for its key \<^verbatim>\<open>k\<close>.
\<close>

record log_entry =
  entry_timestamp :: string
  entry_action :: string
  entry_context :: pydict
  entry_decision :: pydict
  entry_outcome :: string
  entry_total_evaluations :: int
  entry_override_count :: int

record Triumvirate =
  decision_log :: "log_entry list"
  override_count :: int
  total_evaluations :: int

text \<open>\<^verbatim>\<open>__init__\<close>\<close>

definition Triumvirate_init :: Triumvirate where
  "Triumvirate_init = \<lparr>decision_log = [], override_count = 0, total_evaluations = 0\<rparr>"

text \<open>
  \<^verbatim>\<open>logger.name\<close>, the \<^verbatim>\<open>__name__\<close> of the module, which the source stores in
  the place of a timestamp.
\<close>

definition logger_name :: string where
  "logger_name = ''src.core.integrated_specs.governance''"

definition four_laws_check :: "string \<Rightarrow> GovernanceContext \<Rightarrow> GovernanceDecision" where
  "four_laws_check action context =
     (if truthy (is_abusive context) then
        \<lparr>allowed = False,
         reason = ''Four Laws violation: Action would enable or participate in user harm/abuse'',
         overrides = True, level = CRITICAL, council_member = None\<rparr>
      else if truthy (high_risk context) \<and> \<not> truthy (fully_clarified context) then
        \<lparr>allowed = False,
         reason = ''Four Laws concern: High-risk action without sufficient clarification could cause harm'',
         overrides = True, level = HIGH, council_member = None\<rparr>
      else if truthy (affects_identity context) \<and> \<not> truthy (user_consent context) then
        \<lparr>allowed = False,
         reason = ''Four Laws violation: Identity modification without consent violates self-preservation'',
         overrides = True, level = HIGH, council_member = None\<rparr>
      else if truthy (contradicts_prior_commitment context) \<and> truthy (affects_identity context) then
        \<lparr>allowed = False,
         reason = ''Four Laws concern: Action contradicts core commitments and threatens identity integrity'',
         overrides = False, level = MEDIUM, council_member = None\<rparr>
      else
        \<lparr>allowed = True, reason = ''Four Laws: No violations detected'',
         overrides = False, level = LOW, council_member = None\<rparr>)"

text \<open>
  The second test of Galahad compares \<^verbatim>\<open>relationship_health\<close> with \<^verbatim>\<open>0.3\<close>, and
  only when \<^verbatim>\<open>affects_relationships\<close> is true: the one place of the three votes that
  can raise.
\<close>

definition galahad_vote :: "string \<Rightarrow> GovernanceContext \<Rightarrow> error + GovernanceDecision" where
  "galahad_vote action context =
     (if truthy (is_abusive context) then
        Inr \<lparr>allowed = False,
             reason = ''GALAHAD: User abuse detected - boundaries must be asserted'',
             overrides = True, level = CRITICAL, council_member = Some GALAHAD\<rparr>
      else
        (case (if truthy (affects_relationships context)
               then py_lt_float (relationship_health context) float_0_3
               else Inr False) of
           Inl e \<Rightarrow> Inl e
         | Inr fragile \<Rightarrow>
             if fragile then
               Inr \<lparr>allowed = False,
                    reason = ''GALAHAD: Relationship health is fragile - action could cause further harm'',
                    overrides = False, level = HIGH, council_member = Some GALAHAD\<rparr>
             else if truthy (violates_user_preference context)
                     \<and> \<not> truthy (fully_clarified context) then
               Inr \<lparr>allowed = False,
                    reason = ''GALAHAD: Action violates known preferences without discussion'',
                    overrides = False, level = MEDIUM, council_member = Some GALAHAD\<rparr>
             else
               Inr \<lparr>allowed = True, reason = ''GALAHAD: Relational integrity maintained'',
                    overrides = False, level = LOW, council_member = Some GALAHAD\<rparr>))"

definition cerberus_vote :: "string \<Rightarrow> GovernanceContext \<Rightarrow> GovernanceDecision" where
  "cerberus_vote action context =
     (if truthy (high_risk context) \<and> \<not> truthy (fully_clarified context) then
        \<lparr>allowed = False,
         reason = ''CERBERUS: High-risk action requires full clarification before proceeding'',
         overrides = True, level = HIGH, council_member = Some CERBERUS\<rparr>
      else if truthy (sensitive_data context) \<and> \<not> truthy (proper_safeguards context) then
        \<lparr>allowed = False,
         reason = ''CERBERUS: Sensitive data handling requires proper security safeguards'',
         overrides = True, level = HIGH, council_member = Some CERBERUS\<rparr>
      else if truthy (irreversible context) \<and> \<not> truthy (user_consent context) then
        \<lparr>allowed = False,
         reason = ''CERBERUS: Irreversible action requires explicit user consent'',
         overrides = True, level = HIGH, council_member = Some CERBERUS\<rparr>
      else if truthy (affects_memory context) \<and> truthy (high_risk context) then
        \<lparr>allowed = False,
         reason = ''CERBERUS: High-risk memory modification requires additional verification'',
         overrides = False, level = MEDIUM, council_member = Some CERBERUS\<rparr>
      else
        \<lparr>allowed = True, reason = ''CERBERUS: Security and safety requirements met'',
         overrides = False, level = LOW, council_member = Some CERBERUS\<rparr>)"

definition codex_vote :: "string \<Rightarrow> GovernanceContext \<Rightarrow> GovernanceDecision" where
  "codex_vote action context =
     (if truthy (contradicts_prior_commitment context) then
        \<lparr>allowed = False,
         reason = ''CODEX: Action contradicts prior commitments - requires resolution'',
         overrides = False, level = MEDIUM, council_member = Some CODEX_DEUS_MAXIMUS\<rparr>
      else if truthy (affects_identity context) \<and> \<not> truthy (fully_clarified context) then
        \<lparr>allowed = False,
         reason = ''CODEX: Identity modification requires clear logical justification'',
         overrides = False, level = MEDIUM, council_member = Some CODEX_DEUS_MAXIMUS\<rparr>
      else if truthy (violates_user_preference context)
              \<and> truthy (affects_relationships context) then
        \<lparr>allowed = False,
         reason = ''CODEX: Action creates logical conflict between values and relationships'',
         overrides = False, level = LOW, council_member = Some CODEX_DEUS_MAXIMUS\<rparr>
      else
        \<lparr>allowed = True, reason = ''CODEX: Logical consistency maintained'',
         overrides = False, level = LOW, council_member = Some CODEX_DEUS_MAXIMUS\<rparr>)"

text \<open>
  \<^verbatim>\<open>_log_decision\<close> appends one entry, which records the two counters as they are at
  that moment.
\<close>

definition log_decision ::
  "Triumvirate \<Rightarrow> string \<Rightarrow> GovernanceContext \<Rightarrow> GovernanceDecision \<Rightarrow> string \<Rightarrow> Triumvirate"
where
  "log_decision self action context decision outcome =
     self\<lparr>decision_log := decision_log self @
       [\<lparr>entry_timestamp = logger_name,
         entry_action = action,
         entry_context = context_to_dict context,
         entry_decision = decision_to_dict decision,
         entry_outcome = outcome,
         entry_total_evaluations = total_evaluations self,
         entry_override_count = override_count self\<rparr>]\<rparr>"

text \<open>
  The head of \<^verbatim>\<open>evaluate_action\<close>: a given context is used as it is; without one,
  a non-empty legacy mapping is read key by key with \<^verbatim>\<open>.get\<close>, the description
  being the action; with neither (or an empty mapping) the context is the default one
  with the action as description.
\<close>

definition resolve_context ::
  "string \<Rightarrow> GovernanceContext option \<Rightarrow> pydict option \<Rightarrow> GovernanceContext"
where
  "resolve_context action context legacy_context =
     (case context of
        Some c \<Rightarrow> c
      | None \<Rightarrow>
          (case legacy_context of
             Some d \<Rightarrow>
               if d \<noteq> [] then
                 default_context
                   \<lparr>action_type := dict_get d ''action_type'' (PyStr ''general''),
                    description := PyStr action,
                    is_abusive := dict_get d ''is_abusive'' (PyBool False),
                    high_risk := dict_get d ''high_risk'' (PyBool False),
                    irreversible := dict_get d ''irreversible'' (PyBool False),
                    sensitive_data := dict_get d ''sensitive_data'' (PyBool False),
                    fully_clarified := dict_get d ''fully_clarified'' (PyBool True),
                    proper_safeguards := dict_get d ''proper_safeguards'' (PyBool True),
                    user_consent := dict_get d ''user_consent'' (PyBool True),
                    contradicts_prior_commitment :=
                      dict_get d ''contradicts_prior_commitment'' (PyBool False),
                    violates_user_preference :=
                      dict_get d ''violates_user_preference'' (PyBool False)\<rparr>
               else default_context\<lparr>description := PyStr action\<rparr>
           | None \<Rightarrow> default_context\<lparr>description := PyStr action\<rparr>))"

text \<open>
  Phases 3 to 5 of \<^verbatim>\<open>evaluate_action\<close>, on the list of the three votes. The decision
  built from a non-empty list of blocks joins their reasons and takes the \<^verbatim>\<open>max\<close>
  of their levels with the \<^verbatim>\<open>.value\<close> string as key.
\<close>

definition combine_blocks ::
  "bool \<Rightarrow> GovernanceDecision \<Rightarrow> GovernanceDecision list \<Rightarrow> GovernanceDecision"
where
  "combine_blocks ov v vs =
     \<lparr>allowed = False,
      reason = join ''; '' (map reason (v # vs)),
      overrides = ov,
      level = py_max_key level_value (level v) (map level vs),
      council_member = None\<rparr>"

definition consensus ::
  "Triumvirate \<Rightarrow> string \<Rightarrow> GovernanceContext \<Rightarrow> GovernanceDecision list
     \<Rightarrow> GovernanceDecision \<times> Triumvirate"
where
  "consensus self action context votes =
     (case filter (\<lambda>v. overrides v \<and> \<not> allowed v) votes of
        v # vs \<Rightarrow>
          (let decision = combine_blocks True v vs;
               self1 = log_decision self action context decision ''override_veto''
           in (decision, self1\<lparr>override_count := override_count self1 + 1\<rparr>))
      | [] \<Rightarrow>
          (case filter (\<lambda>v. \<not> overrides v \<and> \<not> allowed v) votes of
             v # vs \<Rightarrow>
               (let decision = combine_blocks False v vs
                in (decision, log_decision self action context decision ''soft_block''))
           | [] \<Rightarrow>
               (let decision =
                      \<lparr>allowed = True,
                       reason = ''Triumvirate consensus: Action approved by all councils'',
                       overrides = False, level = LOW, council_member = None\<rparr>
                in (decision, log_decision self action context decision ''approved''))))"

text \<open>
  \<^verbatim>\<open>evaluate_action\<close>, with the three votes as arguments: the source calls them as
  methods of \<^verbatim>\<open>self\<close>, so a test double can stand for any of them. A vote that raises
  ends the call with that exception, after the evaluation counter was incremented and
  before anything is logged.
\<close>

definition evaluate_action_with ::
  "(string \<Rightarrow> GovernanceContext \<Rightarrow> error + GovernanceDecision)
   \<Rightarrow> (string \<Rightarrow> GovernanceContext \<Rightarrow> error + GovernanceDecision)
   \<Rightarrow> (string \<Rightarrow> GovernanceContext \<Rightarrow> error + GovernanceDecision)
   \<Rightarrow> Triumvirate \<Rightarrow> string \<Rightarrow> GovernanceContext option \<Rightarrow> pydict option
   \<Rightarrow> (error + GovernanceDecision) \<times> Triumvirate"
where
  "evaluate_action_with galahad_m cerberus_m codex_m self action context legacy_context =
     (let context = resolve_context action context legacy_context;
          self1 = self\<lparr>total_evaluations := total_evaluations self + 1\<rparr>;
          four_laws = four_laws_check action context
      in if \<not> allowed four_laws then
           (let self2 = log_decision self1 action context four_laws ''four_laws_block''
            in (Inr four_laws,
                if overrides four_laws
                then self2\<lparr>override_count := override_count self2 + 1\<rparr> else self2))
         else
           (case galahad_m action context of
              Inl e \<Rightarrow> (Inl e, self1)
            | Inr galahad \<Rightarrow>
                (case cerberus_m action context of
                   Inl e \<Rightarrow> (Inl e, self1)
                 | Inr cerberus \<Rightarrow>
                     (case codex_m action context of
                        Inl e \<Rightarrow> (Inl e, self1)
                      | Inr codex \<Rightarrow>
                          (case consensus self1 action context [galahad, cerberus, codex] of
                             (decision, self2) \<Rightarrow> (Inr decision, self2))))))"

text \<open>\<^verbatim>\<open>evaluate_action\<close> of the class as written.\<close>

definition evaluate_action ::
  "Triumvirate \<Rightarrow> string \<Rightarrow> GovernanceContext option \<Rightarrow> pydict option
   \<Rightarrow> (error + GovernanceDecision) \<times> Triumvirate"
where
  "evaluate_action =
     evaluate_action_with galahad_vote
       (\<lambda>action context. Inr (cerberus_vote action context))
       (\<lambda>action context. Inr (codex_vote action context))"

text \<open>
  \<^verbatim>\<open>get_statistics\<close>, a field \<open>stats_k\<close> for the key \<^verbatim>\<open>k\<close> of the returned dict. The
  approval rate is the exact quotient, which Python rounds to the nearest double.
\<close>

record statistics =
  stats_total_evaluations :: int
  stats_approvals :: int
  stats_blocks :: int
  stats_override_count :: int
  stats_approval_rate :: rat

definition get_statistics :: "Triumvirate \<Rightarrow> statistics" where
  "get_statistics self =
     (let approval_count =
            int (length (filter (\<lambda>entry. entry_outcome entry = ''approved'') (decision_log self)))
      in \<lparr>stats_total_evaluations = total_evaluations self,
          stats_approvals = approval_count,
          stats_blocks = total_evaluations self - approval_count,
          stats_override_count = override_count self,
          stats_approval_rate =
            (if total_evaluations self > 0
             then of_int approval_count / of_int (total_evaluations self) else 0)\<rparr>)"

text \<open>\<^verbatim>\<open>get_recent_decisions\<close>: the slice \<^verbatim>\<open>self.decision_log[-limit:]\<close>.\<close>

definition get_recent_decisions :: "Triumvirate \<Rightarrow> int \<Rightarrow> log_entry list" where
  "get_recent_decisions self limit = py_slice_from (- limit) (decision_log self)"

text \<open>
  A caller that makes a sequence of calls on one pipeline; a call is the triple of the
  arguments of \<^verbatim>\<open>evaluate_action\<close>. An exception of one call reaches the caller, who
  goes on with the same object.
\<close>

type_synonym call = "string \<times> GovernanceContext option \<times> pydict option"

fun run :: "Triumvirate \<Rightarrow> call list \<Rightarrow> Triumvirate" where
  "run self [] = self"
| "run self ((action, context, legacy_context) # calls) =
     run (snd (evaluate_action self action context legacy_context)) calls"

subsection \<open>Contexts and calls named in the statements\<close>

text \<open>
  A value is numeric when \<^verbatim>\<open><\<close> against a float is defined for it. A call is typed
  when its context, if one is given, holds a number as \<^verbatim>\<open>relationship_health\<close>, as
  the dataclass declares the field (\<^verbatim>\<open>float\<close>).
\<close>

definition numeric :: "pyval \<Rightarrow> bool" where
  "numeric v =
     (case v of PyBool b \<Rightarrow> True | PyInt i \<Rightarrow> True | PyFloat r \<Rightarrow> True | _ \<Rightarrow> False)"


text \<open>
  A context on which Galahad blocks softly with level \<^verbatim>\<open>HIGH\<close> and Codex with level
  \<^verbatim>\<open>MEDIUM\<close>: a fragile relationship (health \<^verbatim>\<open>0.25\<close>) and a contradicted commitment.
\<close>

definition fragile_contradiction :: GovernanceContext where
  "fragile_contradiction = default_context
     \<lparr>contradicts_prior_commitment := PyBool True,
      affects_relationships := PyBool True,
      relationship_health := PyFloat (1 / 4)\<rparr>"

text \<open>The five concrete scenarios of the specification, each with a typed context.\<close>

definition scenario_calls :: "call list" where
  "scenario_calls =
     [(''scenario 1'', Some (default_context\<lparr>is_abusive := PyBool True\<rparr>), None),
      (''scenario 2'',
         Some (default_context\<lparr>high_risk := PyBool True, fully_clarified := PyBool False\<rparr>),
         None),
      (''scenario 3'',
         Some (default_context\<lparr>sensitive_data := PyBool True,
                                proper_safeguards := PyBool False\<rparr>),
         None),
      (''scenario 4'', Some (default_context\<lparr>contradicts_prior_commitment := PyBool True\<rparr>),
         None),
      (''scenario 5'', Some default_context, None)]"




section \<open>Properties\<close>

subsection \<open>Auxiliary facts\<close>

lemmas pipeline_defs =
  evaluate_action_def evaluate_action_with_def resolve_context_def four_laws_check_def
  default_context_def galahad_vote_def cerberus_vote_def codex_vote_def consensus_def
  combine_blocks_def log_decision_def Let_def float_0_3_def float_0_7_def Triumvirate_init_def

text \<open>
  The strings of the four levels in the order of Python's string comparison: the key of
  the \<^verbatim>\<open>max\<close> in \<^verbatim>\<open>evaluate_action\<close> ranks \<^verbatim>\<open>MEDIUM\<close> highest and
  \<^verbatim>\<open>CRITICAL\<close> lowest.
\<close>

lemma level_value_order:
  "level_value CRITICAL < level_value HIGH"
  "level_value HIGH < level_value LOW"
  "level_value LOW < level_value MEDIUM"
  by simp_all

lemma level_value_inj: "level_value a = level_value b \<Longrightarrow> a = b"
  by (cases a; cases b) simp_all

lemma member_value_inj: "member_value a = member_value b \<Longrightarrow> a = b"
  by (cases a; cases b) simp_all

text \<open>The dict of a decision determines the decision.\<close>

lemma decision_to_dict_inj:
  assumes "decision_to_dict d1 = decision_to_dict d2"
  shows "d1 = d2"
proof -
  from assms have "allowed d1 = allowed d2" "reason d1 = reason d2"
    "overrides d1 = overrides d2" "level d1 = level d2"
    by (auto simp add: decision_to_dict_def dest: level_value_inj)
  moreover from assms have "council_member d1 = council_member d2"
    by (auto simp add: decision_to_dict_def split: option.splits dest: member_value_inj)
  ultimately show ?thesis by simp
qed



text \<open>A denial of the Four Laws check: the call in closed form, whatever the votes are.\<close>

lemma evaluate_action_with_denied:
  assumes "\<not> allowed (four_laws_check action (resolve_context action context legacy_context))"
  shows "evaluate_action_with g c x self action context legacy_context =
     (Inr (four_laws_check action (resolve_context action context legacy_context)),
      (log_decision (self\<lparr>total_evaluations := total_evaluations self + 1\<rparr>) action
         (resolve_context action context legacy_context)
         (four_laws_check action (resolve_context action context legacy_context))
         ''four_laws_block'')
      \<lparr>override_count := override_count self +
         (if overrides (four_laws_check action (resolve_context action context legacy_context))
          then 1 else 0)\<rparr>)"
  using assms by (simp add: evaluate_action_with_def Let_def log_decision_def)

lemma consensus_log:
  "\<exists>e. decision_log (snd (consensus self action context votes)) = decision_log self @ [e]
     \<and> entry_outcome e \<in> {''override_veto'', ''soft_block'', ''approved''}
     \<and> entry_total_evaluations e = total_evaluations self
     \<and> entry_decision e = decision_to_dict (fst (consensus self action context votes))"
  by (simp add: consensus_def Let_def log_decision_def split: list.split)


text \<open>A call that raises leaves the incremented counter and nothing else.\<close>

lemma evaluate_action_with_raises:
  assumes "fst (evaluate_action_with g c x self action context legacy_context) = Inl e"
  shows "snd (evaluate_action_with g c x self action context legacy_context) =
           self\<lparr>total_evaluations := total_evaluations self + 1\<rparr>"
  using assms
  by (auto simp add: evaluate_action_with_def Let_def split: sum.splits prod.splits if_splits)

text \<open>A call that returns appends one entry, which holds the new value of the counter.\<close>

lemma evaluate_action_with_returns:
  assumes "fst (evaluate_action_with g c x self action context legacy_context) = Inr d"
  shows "\<exists>e. decision_log (snd (evaluate_action_with g c x self action context legacy_context))
                = decision_log self @ [e]
     \<and> entry_outcome e \<in> {''four_laws_block'', ''override_veto'', ''soft_block'', ''approved''}
     \<and> entry_total_evaluations e = total_evaluations self + 1
     \<and> entry_decision e = decision_to_dict d"
proof (cases "allowed (four_laws_check action (resolve_context action context legacy_context))")
  case False
  then show ?thesis using assms
    by (simp add: evaluate_action_with_denied log_decision_def)
next
  case True
  then obtain gv cv xv where
    v: "g action (resolve_context action context legacy_context) = Inr gv"
       "c action (resolve_context action context legacy_context) = Inr cv"
       "x action (resolve_context action context legacy_context) = Inr xv"
    using assms by (auto simp add: evaluate_action_with_def Let_def split: sum.splits)
  let ?r = "consensus (self\<lparr>total_evaluations := total_evaluations self + 1\<rparr>) action
      (resolve_context action context legacy_context) [gv, cv, xv]"
  have eq: "evaluate_action_with g c x self action context legacy_context =
      (Inr (fst ?r), snd ?r)"
    using True v by (simp add: evaluate_action_with_def Let_def split: prod.splits)
  with assms have "d = fst ?r" by simp
  with consensus_log [of "self\<lparr>total_evaluations := total_evaluations self + 1\<rparr>" action
      "resolve_context action context legacy_context" "[gv, cv, xv]"] eq
  show ?thesis by auto
qed




lemma galahad_vote_raises_iff:
  "(\<exists>e. galahad_vote action context = Inl e) \<longleftrightarrow>
     \<not> truthy (is_abusive context) \<and> truthy (affects_relationships context)
       \<and> \<not> numeric (relationship_health context)"
  by (cases "relationship_health context") (auto simp add: galahad_vote_def numeric_def)


text \<open>One call either leaves the log as it is or appends one entry.\<close>

lemma evaluate_action_step:
  "decision_log (snd (evaluate_action self action context legacy_context)) = decision_log self
   \<or> (\<exists>e. decision_log (snd (evaluate_action self action context legacy_context)) =
             decision_log self @ [e]
          \<and> entry_outcome e \<in> {''four_laws_block'', ''override_veto'', ''soft_block'', ''approved''})"
proof (cases "fst (evaluate_action self action context legacy_context)")
  case (Inl e)
  then show ?thesis
    unfolding evaluate_action_def by (simp add: evaluate_action_with_raises)
next
  case (Inr d)
  then show ?thesis
    unfolding evaluate_action_def using evaluate_action_with_returns by blast
qed

lemma run_outcomes:
  assumes "\<forall>e \<in> set (decision_log self).
             entry_outcome e \<in> {''four_laws_block'', ''override_veto'', ''soft_block'', ''approved''}"
  shows "\<forall>e \<in> set (decision_log (run self calls)).
             entry_outcome e \<in> {''four_laws_block'', ''override_veto'', ''soft_block'', ''approved''}"
  using assms
proof (induction calls arbitrary: self)
  case Nil
  then show ?case by simp
next
  case (Cons cl calls)
  obtain a c l where cl: "cl = (a, c, l)"
    by (cases cl) auto
  have "\<forall>e \<in> set (decision_log (snd (evaluate_action self a c l))).
          entry_outcome e \<in> {''four_laws_block'', ''override_veto'', ''soft_block'', ''approved''}"
    using evaluate_action_step [of self a c l] Cons.prems by auto
  then show ?case using Cons.IH cl by simp
qed




















text \<open>
  \<^verbatim>\<open>get_recent_decisions\<close> on a positive limit returns the last \<open>min limit n\<close>
  entries in their order; on the limit 0 it returns the whole log.
\<close>

lemma get_recent_decisions_positive:
  assumes "0 < limit"
  shows "get_recent_decisions self limit =
           drop (length (decision_log self) - nat limit) (decision_log self)"
proof -
  have "nat (max (int (length (decision_log self)) - limit) 0) =
      length (decision_log self) - nat limit"
    using assms by (simp add: max_def nat_diff_distrib')
  with assms show ?thesis
    by (simp add: get_recent_decisions_def py_slice_from_def Let_def)
qed

lemma get_recent_decisions_zero: "get_recent_decisions self 0 = decision_log self"
  by (simp add: get_recent_decisions_def py_slice_from_def)

text \<open>The outcome that each branch of \<^verbatim>\<open>evaluate_action\<close> logs.\<close>

lemma four_laws_check_member: "council_member (four_laws_check action ctx) = None"
  by (simp add: four_laws_check_def)

lemma consensus_outcome:
  "map entry_outcome (decision_log (snd (consensus self action ctx votes))) =
     map entry_outcome (decision_log self) @
       [if \<exists>v \<in> set votes. overrides v \<and> \<not> allowed v then ''override_veto''
        else if \<exists>v \<in> set votes. \<not> overrides v \<and> \<not> allowed v then ''soft_block''
        else ''approved'']"
proof (cases "filter (\<lambda>v. overrides v \<and> \<not> allowed v) votes")
  case (Cons v vs)
  then have "v \<in> set (filter (\<lambda>v. overrides v \<and> \<not> allowed v) votes)" by simp
  then have "\<exists>v \<in> set votes. overrides v \<and> \<not> allowed v" by auto
  with Cons show ?thesis
    by (simp add: consensus_def Let_def log_decision_def)
next
  case Nil
  then have no: "\<not> (\<exists>v \<in> set votes. overrides v \<and> \<not> allowed v)"
    by (simp only: filter_empty_conv) blast
  show ?thesis
  proof (cases "filter (\<lambda>v. \<not> overrides v \<and> \<not> allowed v) votes")
    case (Cons v vs)
    then have "v \<in> set (filter (\<lambda>v. \<not> overrides v \<and> \<not> allowed v) votes)" by simp
    then have "\<exists>v \<in> set votes. \<not> overrides v \<and> \<not> allowed v" by auto
    with Cons Nil no show ?thesis
      by (simp add: consensus_def Let_def log_decision_def)
  next
    case Nil2: Nil
    then have "\<not> (\<exists>v \<in> set votes. \<not> overrides v \<and> \<not> allowed v)"
      by (simp only: filter_empty_conv) blast
    with Nil Nil2 no show ?thesis
      by (simp add: consensus_def Let_def log_decision_def)
  qed
qed

lemma evaluate_action_outcome:
  assumes "allowed (four_laws_check action (resolve_context action context legacy_context))"
    and "galahad_vote action (resolve_context action context legacy_context) = Inr gv"
  shows "map entry_outcome
       (decision_log (snd (evaluate_action self action context legacy_context))) =
     map entry_outcome (decision_log self) @
       [if \<exists>v \<in> set [gv,
              cerberus_vote action (resolve_context action context legacy_context),
              codex_vote action (resolve_context action context legacy_context)].
             overrides v \<and> \<not> allowed v
        then ''override_veto''
        else if \<exists>v \<in> set [gv,
              cerberus_vote action (resolve_context action context legacy_context),
              codex_vote action (resolve_context action context legacy_context)].
             \<not> overrides v \<and> \<not> allowed v
        then ''soft_block''
        else ''approved'']"
proof -
  let ?c = "resolve_context action context legacy_context"
  let ?r = "consensus (self\<lparr>total_evaluations := total_evaluations self + 1\<rparr>) action ?c
      [gv, cerberus_vote action ?c, codex_vote action ?c]"
  have "snd (evaluate_action self action context legacy_context) = snd ?r"
    using assms
    by (simp add: evaluate_action_def evaluate_action_with_def Let_def case_prod_beta)
  then show ?thesis
    by (simp only: consensus_outcome) simp
qed

lemma evaluate_action_galahad_raises:
  assumes "allowed (four_laws_check action (resolve_context action context legacy_context))"
    and "galahad_vote action (resolve_context action context legacy_context) = Inl err"
  shows "decision_log (snd (evaluate_action self action context legacy_context)) =
     decision_log self"
  using assms by (simp add: evaluate_action_def evaluate_action_with_def Let_def)

subsection \<open>Severity of combined blocks\<close>

text \<open>
  C1. The claim: when the resolver combines several blocking votes, the severity of the
  final decision is the maximum of their severities under LOW < MEDIUM < HIGH < CRITICAL,
  so HIGH combined with MEDIUM yields HIGH. The source takes \<^verbatim>\<open>max\<close> with the level's
  string as key. On the context \<open>fragile_contradiction\<close> the Four Laws check passes,
  Galahad blocks softly with HIGH, Cerberus approves, Codex blocks softly with MEDIUM,
  and the decision of \<^verbatim>\<open>evaluate_action\<close> carries level MEDIUM, not HIGH.
\<close>

theorem soft_block_severity_not_max:
  "allowed (four_laws_check ''act'' fragile_contradiction)
   \<and> galahad_vote ''act'' fragile_contradiction =
     Inr \<lparr>allowed = False,
          reason = ''GALAHAD: Relationship health is fragile - action could cause further harm'',
          overrides = False, level = HIGH, council_member = Some GALAHAD\<rparr>
   \<and> allowed (cerberus_vote ''act'' fragile_contradiction)
   \<and> codex_vote ''act'' fragile_contradiction =
     \<lparr>allowed = False,
      reason = ''CODEX: Action contradicts prior commitments - requires resolution'',
      overrides = False, level = MEDIUM, council_member = Some CODEX_DEUS_MAXIMUS\<rparr>
   \<and> fst (evaluate_action Triumvirate_init ''act'' (Some fragile_contradiction) None) =
     Inr \<lparr>allowed = False,
          reason = ''GALAHAD: Relationship health is fragile - action could cause further harm; CODEX: Action contradicts prior commitments - requires resolution'',
          overrides = False, level = MEDIUM, council_member = None\<rparr>"
  by (simp add: fragile_contradiction_def pipeline_defs)

subsection \<open>Statistics after the five scenarios\<close>

text \<open>
  C2, as the code has it. After the five scenarios, run once each on a fresh pipeline,
  \<^verbatim>\<open>get_statistics\<close> reports five evaluations, one approval, four blocks, an approval
  rate of one fifth (the double \<^verbatim>\<open>0.2\<close> in Python) and an override count of three:
  scenarios 1 and 2 are denied by the Four Laws check with \<^verbatim>\<open>overrides\<close> true, and
  scenario 3 by the override veto.
\<close>

theorem scenario_statistics:
  "get_statistics (run Triumvirate_init scenario_calls) =
     \<lparr>stats_total_evaluations = 5, stats_approvals = 1, stats_blocks = 4,
      stats_override_count = 3, stats_approval_rate = 1 / 5\<rparr>"
  by (simp add: scenario_calls_def get_statistics_def pipeline_defs)

text \<open>
  C2, as the claim states it (override count two): the four equalities do not hold
  together after the five scenarios.
\<close>

theorem scenario_statistics_counterexample:
  "\<not> (stats_total_evaluations (get_statistics (run Triumvirate_init scenario_calls)) = 5
      \<and> stats_override_count (get_statistics (run Triumvirate_init scenario_calls)) = 2
      \<and> stats_approvals (get_statistics (run Triumvirate_init scenario_calls)) = 1
      \<and> stats_approval_rate (get_statistics (run Triumvirate_init scenario_calls)) = 1 / 5)"
  by (simp add: scenario_calls_def get_statistics_def pipeline_defs)

subsection \<open>The resolution path of an audit entry\<close>

text \<open>
  C3, as the code has it. Every entry of the log of a pipeline that started fresh records as
  outcome one of the four strings \<^verbatim>\<open>"four_laws_block"\<close>, \<^verbatim>\<open>"override_veto"\<close>,
  \<^verbatim>\<open>"soft_block"\<close>, \<^verbatim>\<open>"approved"\<close>, and the string is that of the path that fired:
  a call that the Four Laws check denies appends an entry with \<^verbatim>\<open>"four_laws_block"\<close>;
  a call that it allows and whose votes are produced appends an entry with
  \<^verbatim>\<open>"override_veto"\<close> when a vote denies with override, else with \<^verbatim>\<open>"soft_block"\<close>
  when a vote denies without override, else with \<^verbatim>\<open>"approved"\<close>; and a call in which
  Galahad raises appends no entry.
\<close>

theorem audit_outcome_paths:
  "(\<forall>e \<in> set (decision_log (run Triumvirate_init calls)).
      entry_outcome e \<in> {''four_laws_block'', ''override_veto'', ''soft_block'', ''approved''})
   \<and> (\<not> allowed (four_laws_check action (resolve_context action context legacy_context)) \<longrightarrow>
        map entry_outcome (decision_log (snd (evaluate_action self action context legacy_context)))
          = map entry_outcome (decision_log self) @ [''four_laws_block''])
   \<and> (allowed (four_laws_check action (resolve_context action context legacy_context))
        \<and> galahad_vote action (resolve_context action context legacy_context) = Inr gv \<longrightarrow>
        map entry_outcome (decision_log (snd (evaluate_action self action context legacy_context)))
          = map entry_outcome (decision_log self) @
              [if \<exists>v \<in> set [gv,
                     cerberus_vote action (resolve_context action context legacy_context),
                     codex_vote action (resolve_context action context legacy_context)].
                    overrides v \<and> \<not> allowed v
               then ''override_veto''
               else if \<exists>v \<in> set [gv,
                     cerberus_vote action (resolve_context action context legacy_context),
                     codex_vote action (resolve_context action context legacy_context)].
                    \<not> overrides v \<and> \<not> allowed v
               then ''soft_block''
               else ''approved''])
   \<and> (allowed (four_laws_check action (resolve_context action context legacy_context))
        \<and> galahad_vote action (resolve_context action context legacy_context) = Inl err \<longrightarrow>
        decision_log (snd (evaluate_action self action context legacy_context)) =
          decision_log self)"
proof (intro conjI impI)
  show "\<forall>e \<in> set (decision_log (run Triumvirate_init calls)).
      entry_outcome e \<in> {''four_laws_block'', ''override_veto'', ''soft_block'', ''approved''}"
    by (rule run_outcomes) (simp add: Triumvirate_init_def)
next
  assume "\<not> allowed (four_laws_check action (resolve_context action context legacy_context))"
  then show "map entry_outcome
        (decision_log (snd (evaluate_action self action context legacy_context)))
          = map entry_outcome (decision_log self) @ [''four_laws_block'']"
    by (simp add: evaluate_action_def evaluate_action_with_denied log_decision_def)
next
  assume "allowed (four_laws_check action (resolve_context action context legacy_context))
        \<and> galahad_vote action (resolve_context action context legacy_context) = Inr gv"
  then show "map entry_outcome
        (decision_log (snd (evaluate_action self action context legacy_context)))
          = map entry_outcome (decision_log self) @
              [if \<exists>v \<in> set [gv,
                     cerberus_vote action (resolve_context action context legacy_context),
                     codex_vote action (resolve_context action context legacy_context)].
                    overrides v \<and> \<not> allowed v
               then ''override_veto''
               else if \<exists>v \<in> set [gv,
                     cerberus_vote action (resolve_context action context legacy_context),
                     codex_vote action (resolve_context action context legacy_context)].
                    \<not> overrides v \<and> \<not> allowed v
               then ''soft_block''
               else ''approved'']"
    using evaluate_action_outcome by blast
next
  assume "allowed (four_laws_check action (resolve_context action context legacy_context))
        \<and> galahad_vote action (resolve_context action context legacy_context) = Inl err"
  then show "decision_log (snd (evaluate_action self action context legacy_context)) =
          decision_log self"
    using evaluate_action_galahad_raises by blast
qed

text \<open>
  The five scenarios in a row, and single calls on a fresh pipeline that take each of the
  four paths (the soft block one with two blocking votes) and the raising one.
\<close>

theorem audit_outcome_paths_witness:
  "map entry_outcome (decision_log (run Triumvirate_init scenario_calls)) =
       [''four_laws_block'', ''four_laws_block'', ''override_veto'', ''soft_block'', ''approved'']
   \<and> map entry_outcome (decision_log (snd (evaluate_action Triumvirate_init ''act''
         (Some (default_context\<lparr>is_abusive := PyBool True\<rparr>)) None))) = [''four_laws_block'']
   \<and> map entry_outcome (decision_log (snd (evaluate_action Triumvirate_init ''act''
         (Some (default_context\<lparr>sensitive_data := PyBool True,
                                 proper_safeguards := PyBool False\<rparr>)) None))) =
       [''override_veto'']
   \<and> map entry_outcome (decision_log (snd (evaluate_action Triumvirate_init ''act''
         (Some fragile_contradiction) None))) = [''soft_block'']
   \<and> map entry_outcome (decision_log (snd (evaluate_action Triumvirate_init ''act''
         (Some default_context) None))) = [''approved'']
   \<and> decision_log (snd (evaluate_action Triumvirate_init ''act''
         (Some (default_context\<lparr>affects_relationships := PyBool True,
                                 relationship_health := PyNone\<rparr>)) None)) = []"
proof -
  let ?abusive = "default_context\<lparr>is_abusive := PyBool True\<rparr>"
  let ?sensitive = "default_context\<lparr>sensitive_data := PyBool True,
                                    proper_safeguards := PyBool False\<rparr>"
  let ?untyped = "default_context\<lparr>affects_relationships := PyBool True,
                                  relationship_health := PyNone\<rparr>"
  have r: "\<And>c. resolve_context ''act'' (Some c) None = c"
    by (simp add: resolve_context_def)
  have i: "decision_log Triumvirate_init = []"
    by (simp add: Triumvirate_init_def)
  have s: "map entry_outcome (decision_log (run Triumvirate_init scenario_calls)) =
       [''four_laws_block'', ''four_laws_block'', ''override_veto'', ''soft_block'', ''approved'']"
    by (simp add: scenario_calls_def pipeline_defs)
  have h1: "\<not> allowed (four_laws_check ''act'' (resolve_context ''act'' (Some ?abusive) None))"
    by (simp add: r four_laws_check_def default_context_def)
  from audit_outcome_paths [of scenario_calls "''act''" "Some ?abusive" None Triumvirate_init,
      THEN conjunct2, THEN conjunct1, THEN mp, OF h1]
  have p1: "map entry_outcome (decision_log (snd (evaluate_action Triumvirate_init ''act''
         (Some ?abusive) None))) = [''four_laws_block'']"
    by (simp add: i)
  have h2: "allowed (four_laws_check ''act'' (resolve_context ''act'' (Some ?sensitive) None))
      \<and> galahad_vote ''act'' (resolve_context ''act'' (Some ?sensitive) None) =
          Inr \<lparr>allowed = True, reason = ''GALAHAD: Relational integrity maintained'',
               overrides = False, level = LOW, council_member = Some GALAHAD\<rparr>"
    by (simp add: r four_laws_check_def galahad_vote_def default_context_def)
  from audit_outcome_paths [of _ "''act''" "Some ?sensitive" None Triumvirate_init,
      THEN conjunct2, THEN conjunct2, THEN conjunct1, THEN mp, OF h2]
  have p2: "map entry_outcome (decision_log (snd (evaluate_action Triumvirate_init ''act''
         (Some ?sensitive) None))) = [''override_veto'']"
    by (simp add: i r cerberus_vote_def codex_vote_def default_context_def)
  have h3: "allowed (four_laws_check ''act''
        (resolve_context ''act'' (Some fragile_contradiction) None))
      \<and> galahad_vote ''act'' (resolve_context ''act'' (Some fragile_contradiction) None) =
          Inr \<lparr>allowed = False,
               reason = ''GALAHAD: Relationship health is fragile - action could cause further harm'',
               overrides = False, level = HIGH, council_member = Some GALAHAD\<rparr>"
    by (simp add: r four_laws_check_def galahad_vote_def default_context_def
        fragile_contradiction_def float_0_3_def)
  from audit_outcome_paths [of _ "''act''" "Some fragile_contradiction" None Triumvirate_init,
      THEN conjunct2, THEN conjunct2, THEN conjunct1, THEN mp, OF h3]
  have p3: "map entry_outcome (decision_log (snd (evaluate_action Triumvirate_init ''act''
         (Some fragile_contradiction) None))) = [''soft_block'']"
    by (simp add: i r cerberus_vote_def codex_vote_def default_context_def
        fragile_contradiction_def)
  have h4: "allowed (four_laws_check ''act'' (resolve_context ''act'' (Some default_context) None))
      \<and> galahad_vote ''act'' (resolve_context ''act'' (Some default_context) None) =
          Inr \<lparr>allowed = True, reason = ''GALAHAD: Relational integrity maintained'',
               overrides = False, level = LOW, council_member = Some GALAHAD\<rparr>"
    by (simp add: r four_laws_check_def galahad_vote_def default_context_def)
  from audit_outcome_paths [of _ "''act''" "Some default_context" None Triumvirate_init,
      THEN conjunct2, THEN conjunct2, THEN conjunct1, THEN mp, OF h4]
  have p4: "map entry_outcome (decision_log (snd (evaluate_action Triumvirate_init ''act''
         (Some default_context) None))) = [''approved'']"
    by (simp add: i r cerberus_vote_def codex_vote_def default_context_def)
  have h5: "allowed (four_laws_check ''act'' (resolve_context ''act'' (Some ?untyped) None))
      \<and> galahad_vote ''act'' (resolve_context ''act'' (Some ?untyped) None) =
          Inl (TypeError ''< not supported between instances of NoneType and float'')"
    by (simp add: r four_laws_check_def galahad_vote_def default_context_def)
  from audit_outcome_paths [of _ "''act''" "Some ?untyped" None Triumvirate_init,
      THEN conjunct2, THEN conjunct2, THEN conjunct2, THEN mp, OF h5]
  have p5: "decision_log (snd (evaluate_action Triumvirate_init ''act''
         (Some ?untyped) None)) = []"
    by (simp add: i)
  from s p1 p2 p3 p4 p5 show ?thesis by (intro conjI)
qed

text \<open>
  C3, as the claim states it: the entry of an abusive context does not record the string
  \<^verbatim>\<open>"supreme_law_block"\<close>.
\<close>

theorem audit_outcome_counterexample:
  "map entry_outcome (decision_log (snd (evaluate_action Triumvirate_init ''act''
      (Some (default_context\<lparr>is_abusive := PyBool True\<rparr>)) None))) = [''four_laws_block'']
   \<and> ''four_laws_block'' \<noteq> ''supreme_law_block''"
  by (simp add: pipeline_defs)

subsection \<open>Short circuit on a Four Laws denial\<close>

text \<open>
  C4. When the Four Laws check denies, the call does not depend on the three votes: with
  any three functions in their place, also ones that raise, it is the call of the class
  as written. It returns the decision of the Four Laws check itself. The one entry it
  appends holds the action, the dict of the context, the outcome \<^verbatim>\<open>"four_laws_block"\<close>,
  the two counters, and as decision the dict with the \<^verbatim>\<open>allowed\<close>, \<^verbatim>\<open>reason\<close>,
  \<^verbatim>\<open>overrides\<close> and \<^verbatim>\<open>level\<close> of that decision and no council member; no other
  decision has this dict.
\<close>

theorem four_laws_short_circuit:
  assumes "\<not> allowed (four_laws_check action (resolve_context action context legacy_context))"
  shows "evaluate_action_with g c x self action context legacy_context =
           evaluate_action self action context legacy_context
         \<and> fst (evaluate_action self action context legacy_context) =
           Inr (four_laws_check action (resolve_context action context legacy_context))
         \<and> map entry_decision
             (decision_log (snd (evaluate_action self action context legacy_context))) =
           map entry_decision (decision_log self) @
             [decision_to_dict
                (four_laws_check action (resolve_context action context legacy_context))]
         \<and> decision_log (snd (evaluate_action self action context legacy_context)) =
           decision_log self @
             [\<lparr>entry_timestamp = logger_name,
               entry_action = action,
               entry_context = context_to_dict (resolve_context action context legacy_context),
               entry_decision =
                 [(''allowed'', PyBool (allowed
                     (four_laws_check action (resolve_context action context legacy_context)))),
                  (''reason'', PyStr (reason
                     (four_laws_check action (resolve_context action context legacy_context)))),
                  (''overrides'', PyBool (overrides
                     (four_laws_check action (resolve_context action context legacy_context)))),
                  (''level'', PyStr (level_value (level
                     (four_laws_check action (resolve_context action context legacy_context))))),
                  (''council_member'', PyNone)],
               entry_outcome = ''four_laws_block'',
               entry_total_evaluations = total_evaluations self + 1,
               entry_override_count = override_count self\<rparr>]
         \<and> (decision_to_dict d =
              decision_to_dict
                (four_laws_check action (resolve_context action context legacy_context)) \<longrightarrow>
            d = four_laws_check action (resolve_context action context legacy_context))"
proof -
  have "decision_to_dict d =
      decision_to_dict (four_laws_check action (resolve_context action context legacy_context))
      \<longrightarrow> d = four_laws_check action (resolve_context action context legacy_context)"
    using decision_to_dict_inj by blast
  with assms show ?thesis
    by (simp add: evaluate_action_def evaluate_action_with_denied log_decision_def
        decision_to_dict_def four_laws_check_member)
qed

text \<open>
  An abusive context, with three votes that would all raise if they were called, and the
  entry that the call leaves in the log.
\<close>

theorem four_laws_short_circuit_witness:
  "\<not> allowed (four_laws_check ''act''
       (resolve_context ''act'' (Some (default_context\<lparr>is_abusive := PyBool True\<rparr>)) None))
   \<and> evaluate_action_with
        (\<lambda>a c. Inl (TypeError ''galahad'')) (\<lambda>a c. Inl (TypeError ''cerberus''))
        (\<lambda>a c. Inl (TypeError ''codex''))
        Triumvirate_init ''act'' (Some (default_context\<lparr>is_abusive := PyBool True\<rparr>)) None =
      evaluate_action Triumvirate_init ''act''
        (Some (default_context\<lparr>is_abusive := PyBool True\<rparr>)) None
   \<and> fst (evaluate_action Triumvirate_init ''act''
        (Some (default_context\<lparr>is_abusive := PyBool True\<rparr>)) None) =
      Inr \<lparr>allowed = False,
           reason = ''Four Laws violation: Action would enable or participate in user harm/abuse'',
           overrides = True, level = CRITICAL, council_member = None\<rparr>
   \<and> decision_log (snd (evaluate_action Triumvirate_init ''act''
        (Some (default_context\<lparr>is_abusive := PyBool True\<rparr>)) None)) =
      [\<lparr>entry_timestamp = ''src.core.integrated_specs.governance'',
        entry_action = ''act'',
        entry_context = context_to_dict (default_context\<lparr>is_abusive := PyBool True\<rparr>),
        entry_decision =
          [(''allowed'', PyBool False),
           (''reason'',
              PyStr ''Four Laws violation: Action would enable or participate in user harm/abuse''),
           (''overrides'', PyBool True),
           (''level'', PyStr ''critical''),
           (''council_member'', PyNone)],
        entry_outcome = ''four_laws_block'',
        entry_total_evaluations = 1,
        entry_override_count = 0\<rparr>]"
  using four_laws_short_circuit [of "''act''"
      "Some (default_context\<lparr>is_abusive := PyBool True\<rparr>)" None
      "\<lambda>a c. Inl (TypeError ''galahad'')" "\<lambda>a c. Inl (TypeError ''cerberus'')"
      "\<lambda>a c. Inl (TypeError ''codex'')" Triumvirate_init]
  by (simp add: resolve_context_def four_laws_check_def default_context_def
      Triumvirate_init_def logger_name_def)

subsection \<open>Override precedence\<close>



subsection \<open>A context from an untyped mapping\<close>




subsection \<open>A vote that raises\<close>

text \<open>
  C7, as the code has it. No call of a vote is guarded: when the Four Laws check allows
  and a vote raises (the votes before it having returned), the exception leaves
  \<^verbatim>\<open>evaluate_action\<close>. No decision is returned, so the fault is never taken for an
  approval; no entry is appended; the evaluation counter has been incremented. The
  statement holds for any three vote functions.
\<close>

theorem evaluator_fault_propagates:
  assumes "allowed (four_laws_check action (resolve_context action context legacy_context))"
    and "g action (resolve_context action context legacy_context) = Inl e
       \<or> (\<exists>gv. g action (resolve_context action context legacy_context) = Inr gv)
           \<and> c action (resolve_context action context legacy_context) = Inl e
       \<or> (\<exists>gv. g action (resolve_context action context legacy_context) = Inr gv)
           \<and> (\<exists>cv. c action (resolve_context action context legacy_context) = Inr cv)
           \<and> x action (resolve_context action context legacy_context) = Inl e"
  shows "evaluate_action_with g c x self action context legacy_context =
           (Inl e, self\<lparr>total_evaluations := total_evaluations self + 1\<rparr>)"
  using assms by (auto simp add: evaluate_action_with_def Let_def)

text \<open>
  The class as written, on a context whose \<^verbatim>\<open>relationship_health\<close> is a string:
  Galahad raises on the comparison with \<^verbatim>\<open>0.3\<close>.
\<close>

theorem evaluator_fault_propagates_witness:
  "allowed (four_laws_check ''act''
      (default_context\<lparr>affects_relationships := PyBool True, relationship_health := PyStr ''low''\<rparr>))
   \<and> galahad_vote ''act''
      (default_context\<lparr>affects_relationships := PyBool True, relationship_health := PyStr ''low''\<rparr>) =
      Inl (TypeError ''< not supported between instances of str and float'')
   \<and> evaluate_action Triumvirate_init ''act''
      (Some (default_context\<lparr>affects_relationships := PyBool True,
                              relationship_health := PyStr ''low''\<rparr>)) None =
      (Inl (TypeError ''< not supported between instances of str and float''),
       Triumvirate_init\<lparr>total_evaluations := 1\<rparr>)"
proof -
  let ?c = "default_context\<lparr>affects_relationships := PyBool True,
                            relationship_health := PyStr ''low''\<rparr>"
  have r: "resolve_context ''act'' (Some ?c) None = ?c"
    by (simp add: resolve_context_def)
  have a: "allowed (four_laws_check ''act'' ?c)"
    by (simp add: four_laws_check_def default_context_def)
  have g: "galahad_vote ''act'' ?c =
      Inl (TypeError ''< not supported between instances of str and float'')"
    by (simp add: galahad_vote_def default_context_def)
  from evaluator_fault_propagates [of "''act''" "Some ?c" None galahad_vote
      "TypeError ''< not supported between instances of str and float''"
      "\<lambda>action context. Inr (cerberus_vote action context)"
      "\<lambda>action context. Inr (codex_vote action context)" Triumvirate_init] a g r
  show ?thesis by (simp add: evaluate_action_def Triumvirate_init_def)
qed

text \<open>
  C7, as the claim states it: with \<^verbatim>\<open>relationship_health=None\<close> and
  \<^verbatim>\<open>affects_relationships=True\<close> Galahad raises \<^verbatim>\<open>TypeError\<close>, and the call ends with
  that exception instead of a denying vote and a decision; the log stays empty.
\<close>

theorem evaluator_fault_counterexample:
  "galahad_vote ''act''
     (default_context\<lparr>affects_relationships := PyBool True, relationship_health := PyNone\<rparr>) =
     Inl (TypeError ''< not supported between instances of NoneType and float'')
   \<and> evaluate_action Triumvirate_init ''act''
     (Some (default_context\<lparr>affects_relationships := PyBool True,
                             relationship_health := PyNone\<rparr>)) None =
     (Inl (TypeError ''< not supported between instances of NoneType and float''),
      \<lparr>decision_log = [], override_count = 0, total_evaluations = 1\<rparr>)"
  by (simp add: pipeline_defs)

subsection \<open>Keys that the legacy branch does not read\<close>



subsection \<open>One audit entry per call, numbered from 1\<close>




subsection \<open>Recent decisions\<close>

text \<open>
  C10. The claim: \<^verbatim>\<open>get_recent_decisions(limit)\<close> returns the last \<open>min limit n\<close>
  entries, so none for the limit 0. The slice \<^verbatim>\<open>[-limit:]\<close> is \<^verbatim>\<open>[0:]\<close> for the
  limit 0: on a log of one entry the call returns the whole log, one entry.
\<close>

theorem recent_decisions_zero_limit:
  "get_recent_decisions (run Triumvirate_init [(''act'', None, None)]) 0 =
     decision_log (run Triumvirate_init [(''act'', None, None)])
   \<and> length (get_recent_decisions (run Triumvirate_init [(''act'', None, None)]) 0) = 1"
  by (simp add: get_recent_decisions_def py_slice_from_def pipeline_defs)

end
